theory Spec2Isabelle
  imports Complex_Main "HOL-Library.Multiset"
begin

section \<open>The backend pipeline\<close>

text \<open>
  Modelled from the spec: the backend that parses and classifies the bars (the Python
  service behind \<^verbatim>\<open>/upload-csv\<close>) is not among the sources; only its caller, the upload
  component, is. The parser and the session classifier of this section follow sections
  4.1, 4.2 and 7 of the specification. What the specification leaves open is a
  parameter: the accepted timestamp and price syntax (\<open>parse_timestamp\<close>,
  \<open>parse_price\<close>), the number given to the first data row, the conversion of a parsed
  timestamp to an absolute instant, and the offset rules of the reference zone.
\<close>

subsection \<open>Parser\<close>

text \<open>
  Modelled from the spec: a RawRow, one CSV line after the header with its timestamp and
  its four prices as text, and the error descriptor \<open>{row_number, reason}\<close> of a row
  that failed. The reason names the first required field that did not parse.
\<close>

record raw_row =
  timestamp_text :: string
  open_text :: string
  high_text :: string
  low_text :: string
  close_text :: string

datatype reason = BadTimestamp | BadOpen | BadHigh | BadLow | BadClose

record row_error =
  row_number :: nat
  reason :: reason

text \<open>
  Modelled from the spec: the bar candidate the parser makes of a row, with a timestamp
  of type \<open>'t\<close> and prices of type \<open>'p\<close>, before classification.
\<close>

record ('t, 'p) candidate =
  timestamp :: 't
  "open" :: 'p
  high :: 'p
  low :: 'p
  close :: 'p

text \<open>
  Modelled from the spec: a row yields a bar candidate when the timestamp and the four
  prices parse, and the reason of the first field that fails otherwise.
\<close>

definition parse_row ::
  "(string \<Rightarrow> 't option) \<Rightarrow> (string \<Rightarrow> 'p option) \<Rightarrow> raw_row \<Rightarrow> reason + ('t, 'p) candidate" where
  "parse_row parse_timestamp parse_price r =
     (case parse_timestamp (timestamp_text r) of None \<Rightarrow> Inl BadTimestamp | Some t \<Rightarrow>
      case parse_price (open_text r) of None \<Rightarrow> Inl BadOpen | Some op \<Rightarrow>
      case parse_price (high_text r) of None \<Rightarrow> Inl BadHigh | Some hi \<Rightarrow>
      case parse_price (low_text r) of None \<Rightarrow> Inl BadLow | Some lo \<Rightarrow>
      case parse_price (close_text r) of None \<Rightarrow> Inl BadClose | Some cl \<Rightarrow>
        Inr \<lparr> timestamp = t, open = op, high = hi, low = lo, close = cl \<rparr>)"

text \<open>
  Modelled from the spec: the data rows are read in order, the row numbered \<open>n\<close> first.
  A row that fails is skipped and recorded under its number; the rows after it are read
  as before.
\<close>

fun parse_rows ::
  "(raw_row \<Rightarrow> reason + 'b) \<Rightarrow> nat \<Rightarrow> raw_row list \<Rightarrow> 'b list \<times> row_error list" where
  "parse_rows parse_one n [] = ([], [])"
| "parse_rows parse_one n (r # rs) =
     (let (bars, errors) = parse_rows parse_one (Suc n) rs in
      case parse_one r of
        Inl why \<Rightarrow> (bars, \<lparr> row_number = n, reason = why \<rparr> # errors)
      | Inr b \<Rightarrow> (b # bars, errors))"

text \<open>
  Modelled from the spec: the whole call fails only on a byte stream that does not decode
  or has no parseable header; every other document is a partial success.
\<close>

datatype document = Undecodable | NoHeader | DataRows "raw_row list"

datatype structural_error = CannotDecode | MissingHeader

definition parse ::
  "(raw_row \<Rightarrow> reason + 'b) \<Rightarrow> nat \<Rightarrow> document \<Rightarrow> structural_error + ('b list \<times> row_error list)" where
  "parse parse_one first doc =
     (case doc of
        Undecodable \<Rightarrow> Inl CannotDecode
      | NoHeader \<Rightarrow> Inl MissingHeader
      | DataRows rows \<Rightarrow> Inr (parse_rows parse_one first rows))"

subsection \<open>Session classifier\<close>

text \<open>
  Modelled from the spec: the SessionConfig with its two boundary times, the regular
  session as a fixed pair of local times, and the Bar, a candidate with the flag the
  classifier assigns. Local times are seconds after midnight.
\<close>

record session_config =
  prev_close_time :: nat
  current_open_time :: nat

record regular_session =
  regular_open :: nat
  regular_close :: nat

record ('t, 'p) bar = "('t, 'p) candidate" +
  is_regular_hours :: bool

text \<open>
  Modelled from the spec: the local time of day of an instant (epoch seconds) in the
  reference zone, in seconds after local midnight. \<open>utc_offset\<close> gives the zone's offset
  in force at an instant.
\<close>

definition local_time_of_day :: "(int \<Rightarrow> int) \<Rightarrow> int \<Rightarrow> nat" where
  "local_time_of_day utc_offset instant = nat ((instant + utc_offset instant) mod 86400)"

text \<open>Modelled from the spec: the half-open window \<open>[regular_open, regular_close)\<close>.\<close>

definition in_regular_session :: "regular_session \<Rightarrow> nat \<Rightarrow> bool" where
  "in_regular_session w tod \<longleftrightarrow> regular_open w \<le> tod \<and> tod < regular_close w"

text \<open>
  Modelled from the spec: a bar is classified from its own timestamp. \<open>to_instant\<close> is
  step 1 for the source zone (a naive timestamp gets the source zone attached and becomes
  an instant); the stored timestamp is that instant.
\<close>

definition classify_bar ::
  "('t \<Rightarrow> int) \<Rightarrow> (int \<Rightarrow> int) \<Rightarrow> regular_session \<Rightarrow> session_config \<Rightarrow>
   ('t, 'p) candidate \<Rightarrow> (int, 'p) bar" where
  "classify_bar to_instant utc_offset w cfg c =
     \<lparr> timestamp = to_instant (timestamp c),
       open = open c, high = high c, low = low c, close = close c,
       is_regular_hours =
         in_regular_session w (local_time_of_day utc_offset (to_instant (timestamp c))) \<rparr>"

definition classify ::
  "('t \<Rightarrow> int) \<Rightarrow> (int \<Rightarrow> int) \<Rightarrow> regular_session \<Rightarrow> session_config \<Rightarrow>
   ('t, 'p) candidate list \<Rightarrow> (int, 'p) bar list" where
  "classify to_instant utc_offset w cfg bars = map (classify_bar to_instant utc_offset w cfg) bars"

section \<open>The page and the upload component\<close>

subsection \<open>Strings\<close>

text \<open>
  A string is a list of bytes. \<^verbatim>\<open>toLowerCase\<close> maps the ASCII capitals and leaves every
  other byte as it is. (The runtime also lower-cases letters outside ASCII; none of them
  becomes or stops being one of the characters of \<^verbatim>\<open>.csv\<close>, the only use made of the
  result.)
\<close>

definition lower_char :: "char \<Rightarrow> char" where
  "lower_char c =
     (case map_of (zip ''ABCDEFGHIJKLMNOPQRSTUVWXYZ'' ''abcdefghijklmnopqrstuvwxyz'') c of
        Some l \<Rightarrow> l
      | None \<Rightarrow> c)"

definition toLowerCase :: "string \<Rightarrow> string" where
  "toLowerCase s = map lower_char s"

definition endsWith :: "string \<Rightarrow> string \<Rightarrow> bool" where
  "endsWith s searchString \<longleftrightarrow>
     length searchString \<le> length s \<and>
     drop (length s - length searchString) s = searchString"

definition startsWith :: "string \<Rightarrow> string \<Rightarrow> bool" where
  "startsWith s searchString \<longleftrightarrow> take (length searchString) s = searchString"

text \<open>The format \<^verbatim>\<open>HH:MM\<close> on a 24-hour clock.\<close>

definition digit_value :: "char \<Rightarrow> nat option" where
  "digit_value c = map_of (zip ''0123456789'' [0, 1, 2, 3, 4, 5, 6, 7, 8, 9]) c"

definition is_HHMM :: "string \<Rightarrow> bool" where
  "is_HHMM s =
     (case s of
        [h1, h2, sep, m1, m2] \<Rightarrow>
          (case (digit_value h1, digit_value h2, digit_value m1, digit_value m2) of
             (Some a, Some b, Some c, Some d) \<Rightarrow>
               sep = CHR '':'' \<and> 10 * a + b < 24 \<and> 10 * c + d < 60
           | _ \<Rightarrow> False)
      | _ \<Rightarrow> False)"

subsection \<open>Home\<close>

record File =
  name :: string
  contents :: string

text \<open>The page's state; \<open>uploadedData\<close> is \<open>None\<close> for \<^verbatim>\<open>null\<close>.\<close>

record 'r Home =
  uploadedData :: "'r option"
  showUpload :: bool
  prevCloseTime :: string
  currentOpenTime :: string

definition Home_initial :: "'r Home" where
  "Home_initial =
     \<lparr> uploadedData = None, showUpload = True,
       prevCloseTime = ''16:00'', currentOpenTime = ''07:00'' \<rparr>"

definition handleFileUploaded :: "'r Home \<Rightarrow> 'r \<Rightarrow> File \<Rightarrow> 'r Home" where
  "handleFileUploaded h data f = h\<lparr> uploadedData := Some data, showUpload := False \<rparr>"

subsection \<open>FileUpload\<close>

text \<open>
  A thrown value is an \<^verbatim>\<open>Error\<close> with its message, or something else. The callback
  prop is given by whether it throws; an optional string prop is \<open>None\<close> when absent.
\<close>

datatype thrown = Error string | NonError

record 'r FileUploadProps =
  onFileUploaded :: "'r \<Rightarrow> File \<Rightarrow> thrown option"
  prevCloseTime :: "string option"
  currentOpenTime :: "string option"

text \<open>The props \<open>Home\<close> renders the component with; its callback never throws.\<close>

definition Home_props :: "'r Home \<Rightarrow> 'r FileUploadProps" where
  "Home_props h =
     \<lparr> onFileUploaded = (\<lambda>data f. None),
       prevCloseTime = Some (Home.prevCloseTime h),
       currentOpenTime = Some (Home.currentOpenTime h) \<rparr>"

datatype form_value = FormFile File | FormText string

type_synonym form_data = "(string \<times> form_value) list"

record request =
  url :: string
  "method" :: string
  body :: form_data

text \<open>
  The response: \<open>json\<close> is what \<^verbatim>\<open>response.json()\<close> settles to, a rejection or the
  parsed body. \<^verbatim>\<open>fetch\<close> rejects or resolves with a response.
\<close>

record 'r response =
  ok :: bool
  statusText :: string
  json :: "thrown + 'r"

datatype 'r fetched = Rejected thrown | Resolved "'r response"

text \<open>What the handler does outside the component, in order.\<close>

datatype 'r effect = Fetch request | OnFileUploaded 'r File | ConsoleError thrown

text \<open>
  The component's state. \<open>fileInputRef\<close> is \<open>None\<close> when \<^verbatim>\<open>fileInputRef.current\<close> is
  null, and the value of the file input otherwise.
\<close>

record state =
  isDragOver :: bool
  isUploading :: bool
  uploadStatus :: string
  fileInputRef :: "string option"

text \<open>\<^verbatim>\<open>if (v) formData.append(field, v)\<close>: an absent or empty string is falsy.\<close>

definition append_if_given :: "string \<Rightarrow> string option \<Rightarrow> form_data \<Rightarrow> form_data" where
  "append_if_given field v formData =
     (case v of
        None \<Rightarrow> formData
      | Some s \<Rightarrow> if s = [] then formData else formData @ [(field, FormText s)])"

definition upload_request :: "'r FileUploadProps \<Rightarrow> File \<Rightarrow> request" where
  "upload_request props f =
     \<lparr> url = ''https://ruth-tester-backend.onrender.com/upload-csv'',
       method = ''POST'',
       body =
         append_if_given ''current_open_time'' (currentOpenTime props)
           (append_if_given ''prev_close_time'' (prevCloseTime props)
              [(''file'', FormFile f)]) \<rparr>"

text \<open>
  The \<^verbatim>\<open>try\<close> block: the state it leaves, its effects, and the value it throws if it
  does. An await is modelled as returning at once with what the environment gives.
\<close>

definition try_upload ::
  "'r FileUploadProps \<Rightarrow> (request \<Rightarrow> 'r fetched) \<Rightarrow> state \<Rightarrow> File \<Rightarrow>
   state \<times> 'r effect list \<times> thrown option" where
  "try_upload props fetch st f =
     (let req = upload_request props f in
      case fetch req of
        Rejected e \<Rightarrow> (st, [Fetch req], Some e)
      | Resolved response \<Rightarrow>
          if \<not> ok response
          then (st, [Fetch req], Some (Error (''Upload failed: '' @ statusText response)))
          else
            (case json response of
               Inl e \<Rightarrow> (st, [Fetch req], Some e)
             | Inr result \<Rightarrow>
                 (let st1 = st\<lparr> uploadStatus := ''File uploaded successfully!'' \<rparr> in
                  case onFileUploaded props result f of
                    Some e \<Rightarrow> (st1, [Fetch req, OnFileUploaded result f], Some e)
                  | None \<Rightarrow>
                      (st1\<lparr> fileInputRef := map_option (\<lambda>v. []) (fileInputRef st1) \<rparr>,
                       [Fetch req, OnFileUploaded result f], None))))"

definition handleFileUpload ::
  "'r FileUploadProps \<Rightarrow> (request \<Rightarrow> 'r fetched) \<Rightarrow> state \<Rightarrow> File \<Rightarrow> state \<times> 'r effect list" where
  "handleFileUpload props fetch st f =
     (if \<not> endsWith (toLowerCase (name f)) ''.csv''
      then (st\<lparr> uploadStatus := ''Please select a CSV file'' \<rparr>, [])
      else
        (let st1 = st\<lparr> isUploading := True, uploadStatus := ''Uploading and processing...'' \<rparr>;
             (st2, effects, exn) = try_upload props fetch st1 f;
             (st3, effects') =
               (case exn of
                  None \<Rightarrow> (st2, effects)
                | Some error \<Rightarrow>
                    (st2\<lparr> uploadStatus :=
                        ''Upload failed: '' @
                          (case error of Error message \<Rightarrow> message | NonError \<Rightarrow> ''Unknown error'') \<rparr>,
                     effects @ [ConsoleError error]))
         in (st3\<lparr> isUploading := False \<rparr>, effects')))"

text \<open>The page after the effects of a handler run: each callback effect is \<open>handleFileUploaded\<close>.\<close>

fun Home_after :: "'r Home \<Rightarrow> 'r effect list \<Rightarrow> 'r Home" where
  "Home_after h [] = h"
| "Home_after h (OnFileUploaded data f # es) = Home_after (handleFileUploaded h data f) es"
| "Home_after h (e # es) = Home_after h es"

definition request_failed :: "'r fetched \<Rightarrow> bool" where
  "request_failed outcome = (case outcome of Rejected e \<Rightarrow> True | Resolved r \<Rightarrow> \<not> ok r)"

section \<open>JavaScript values read by the chart component\<close>

text \<open>
  The chart component receives \<^verbatim>\<open>data: any[]\<close>, the bar list of the backend's JSON
  response. Each element is an object; the component reads six of its properties. A
  property holds a JSON primitive or is absent (\<open>JUndefined\<close>).

  A JavaScript number is an IEEE double. A finite double is represented by the rational
  it denotes (the two zeros are one value: both are falsy, and nothing below tells them
  apart); the three other values are \<open>NaN\<close> and the two infinities.
\<close>

datatype jsnum = NaN | NegInf | Fin rat | PosInf

datatype jsval = JUndefined | JNull | JBool bool | JNumber jsnum | JString string

record item =
  time :: jsval
  "open" :: jsval
  high :: jsval
  low :: jsval
  close :: jsval
  is_regular_hours :: jsval

text \<open>\<^verbatim>\<open>ToBoolean\<close>: the falsy values are undefined, null, false, 0, NaN and the empty string.\<close>

fun ToBoolean :: "jsval \<Rightarrow> bool" where
  "ToBoolean JUndefined = False"
| "ToBoolean JNull = False"
| "ToBoolean (JBool b) = b"
| "ToBoolean (JNumber n) = (n \<noteq> NaN \<and> n \<noteq> Fin 0)"
| "ToBoolean (JString s) = (s \<noteq> [])"

text \<open>\<^verbatim>\<open>a && b\<close> is \<open>a\<close> when \<open>a\<close> is falsy, and \<open>b\<close> otherwise.\<close>

definition js_and :: "jsval \<Rightarrow> jsval \<Rightarrow> jsval" where
  "js_and a b = (if ToBoolean a then b else a)"

text \<open>
  \<^verbatim>\<open>parseFloat(v)\<close> converts \<open>v\<close> to a string and reads the longest decimal prefix.
  The strings of undefined, null, true and false have no such prefix. The string of a
  number reads back as that number (the shortest round-tripping decimal, \<^verbatim>\<open>Infinity\<close>,
  \<^verbatim>\<open>NaN\<close>). What the runtime reads from an arbitrary string is the parameter \<open>pfs\<close>.
\<close>

fun parseFloat :: "(string \<Rightarrow> jsnum) \<Rightarrow> jsval \<Rightarrow> jsnum" where
  "parseFloat pfs JUndefined = NaN"
| "parseFloat pfs JNull = NaN"
| "parseFloat pfs (JBool b) = NaN"
| "parseFloat pfs (JNumber n) = n"
| "parseFloat pfs (JString s) = pfs s"

text \<open>
  \<^verbatim>\<open>ToNumber\<close>, applied by the binary minus. The runtime's conversion of a string
  (\<^verbatim>\<open>StringToNumber\<close>) is the parameter \<open>tns\<close>.
\<close>

fun ToNumber :: "(string \<Rightarrow> jsnum) \<Rightarrow> jsval \<Rightarrow> jsnum" where
  "ToNumber tns JUndefined = NaN"
| "ToNumber tns JNull = Fin 0"
| "ToNumber tns (JBool b) = Fin (if b then 1 else 0)"
| "ToNumber tns (JNumber n) = n"
| "ToNumber tns (JString s) = tns s"

text \<open>
  Subtraction of doubles. The difference of two finite doubles is given by its exact
  value: rounding keeps its sign (distinct doubles never subtract to zero, and an
  overflow goes to the infinity of the same sign), and the sort below reads only the
  sign.
\<close>

fun js_minus :: "jsnum \<Rightarrow> jsnum \<Rightarrow> jsnum" where
  "js_minus NaN b = NaN"
| "js_minus a NaN = NaN"
| "js_minus PosInf PosInf = NaN"
| "js_minus NegInf NegInf = NaN"
| "js_minus PosInf b = PosInf"
| "js_minus NegInf b = NegInf"
| "js_minus (Fin a) PosInf = NegInf"
| "js_minus (Fin a) NegInf = PosInf"
| "js_minus (Fin a) (Fin b) = Fin (a - b)"

fun is_positive :: "jsnum \<Rightarrow> bool" where
  "is_positive PosInf = True"
| "is_positive (Fin q) = (0 < q)"
| "is_positive NaN = False"
| "is_positive NegInf = False"

text \<open>The relation \<^verbatim>\<open><=\<close> on numbers: false as soon as one side is NaN.\<close>

fun js_le :: "jsnum \<Rightarrow> jsnum \<Rightarrow> bool" where
  "js_le NaN b = False"
| "js_le a NaN = False"
| "js_le NegInf b = True"
| "js_le a PosInf = True"
| "js_le PosInf b = False"
| "js_le a NegInf = False"
| "js_le (Fin a) (Fin b) = (a \<le> b)"

section \<open>Array.prototype.sort\<close>

text \<open>
  \<^verbatim>\<open>xs.sort(comparefn)\<close> is stable. An element \<open>x\<close> that stood before \<open>y\<close> ends up after
  \<open>y\<close> only when \<open>comparefn(x, y) > 0\<close>; a NaN result counts as \<open>+0\<close>. For a consistent
  comparator the standard fixes the result, and this insertion from the right computes
  it; for an inconsistent one the standard leaves the order to the implementation, and
  this is one admissible order.
\<close>

fun sort_insert :: "('a \<Rightarrow> 'a \<Rightarrow> jsnum) \<Rightarrow> 'a \<Rightarrow> 'a list \<Rightarrow> 'a list" where
  "sort_insert comparefn x [] = [x]"
| "sort_insert comparefn x (y # ys) =
     (if is_positive (comparefn x y) then y # sort_insert comparefn x ys else x # y # ys)"

fun array_sort :: "('a \<Rightarrow> 'a \<Rightarrow> jsnum) \<Rightarrow> 'a list \<Rightarrow> 'a list" where
  "array_sort comparefn [] = []"
| "array_sort comparefn (x # xs) = sort_insert comparefn x (array_sort comparefn xs)"

section \<open>CustomTradingChart: formatting and splitting the bars\<close>

text \<open>
  \<^verbatim>\<open>item.open && item.high && item.low && item.close && item.time\<close>, as the filter
  reads it.
\<close>

definition has_all_fields :: "item \<Rightarrow> bool" where
  "has_all_fields it =
     ToBoolean (js_and (js_and (js_and (js_and (open it) (high it)) (low it)) (close it)) (time it))"

definition format_item :: "(string \<Rightarrow> jsnum) \<Rightarrow> item \<Rightarrow> item" where
  "format_item pfs it =
     \<lparr> time = time it,
       open = JNumber (parseFloat pfs (open it)),
       high = JNumber (parseFloat pfs (high it)),
       low = JNumber (parseFloat pfs (low it)),
       close = JNumber (parseFloat pfs (close it)),
       is_regular_hours = is_regular_hours it \<rparr>"

definition by_time :: "(string \<Rightarrow> jsnum) \<Rightarrow> item \<Rightarrow> item \<Rightarrow> jsnum" where
  "by_time tns a b = js_minus (ToNumber tns (time a)) (ToNumber tns (time b))"

definition allFormattedData :: "(string \<Rightarrow> jsnum) \<Rightarrow> (string \<Rightarrow> jsnum) \<Rightarrow> item list \<Rightarrow> item list" where
  "allFormattedData pfs tns data =
     array_sort (by_time tns) (map (format_item pfs) (filter has_all_fields data))"

definition regularHoursData :: "item list \<Rightarrow> item list" where
  "regularHoursData formatted = filter (\<lambda>it. ToBoolean (is_regular_hours it)) formatted"

definition afterHoursData :: "item list \<Rightarrow> item list" where
  "afterHoursData formatted = filter (\<lambda>it. \<not> ToBoolean (is_regular_hours it)) formatted"

text \<open>
  What the effect hands to the two candlestick series: nothing when \<open>data\<close> is empty (the
  effect returns at once), the two filtered lists otherwise. With data the chart
  container is mounted before the effect runs.
\<close>

definition rendered :: "(string \<Rightarrow> jsnum) \<Rightarrow> (string \<Rightarrow> jsnum) \<Rightarrow> item list \<Rightarrow> item list \<times> item list" where
  "rendered pfs tns data =
     (if data = [] then ([], [])
      else (regularHoursData (allFormattedData pfs tns data),
            afterHoursData (allFormattedData pfs tns data)))"

text \<open>A bar as the data model has it: a numeric time and numeric prices.\<close>

fun is_number :: "jsval \<Rightarrow> bool" where
  "is_number (JNumber n) = True"
| "is_number v = False"

definition is_bar :: "item \<Rightarrow> bool" where
  "is_bar it \<longleftrightarrow>
     is_number (time it) \<and> is_number (open it) \<and> is_number (high it) \<and>
     is_number (low it) \<and> is_number (close it)"

text \<open>A bar with finite numbers and a boolean flag, for the examples below.\<close>

abbreviation numeric_bar :: "rat \<Rightarrow> rat \<Rightarrow> rat \<Rightarrow> rat \<Rightarrow> rat \<Rightarrow> bool \<Rightarrow> item" where
  "numeric_bar t op hi lo cl reg \<equiv>
     \<lparr> time = JNumber (Fin t), open = JNumber (Fin op), high = JNumber (Fin hi),
       low = JNumber (Fin lo), close = JNumber (Fin cl), is_regular_hours = JBool reg \<rparr>"

section \<open>Properties of the chart component\<close>

lemma mset_sort_insert: "mset (sort_insert c x ys) = add_mset x (mset ys)"
  by (induction ys) auto

lemma mset_array_sort: "mset (array_sort c xs) = mset xs"
  by (induction xs) (auto simp: mset_sort_insert)

lemma length_array_sort: "length (array_sort c xs) = length xs"
  using mset_array_sort [of c xs] by (metis size_mset)

lemma set_array_sort: "set (array_sort c xs) = set xs"
  using mset_array_sort [of c xs] by (metis set_mset_mset)

lemma has_all_fields_iff:
  "has_all_fields it \<longleftrightarrow>
     ToBoolean (open it) \<and> ToBoolean (high it) \<and> ToBoolean (low it) \<and>
     ToBoolean (close it) \<and> ToBoolean (time it)"
  by (simp add: has_all_fields_def js_and_def)

lemma length_split:
  "length (regularHoursData xs) + length (afterHoursData xs) = length xs"
  unfolding regularHoursData_def afterHoursData_def
  by (induction xs) auto

lemma length_allFormattedData:
  "length (allFormattedData pfs tns data) = length (filter has_all_fields data)"
  by (simp add: allFormattedData_def length_array_sort)

lemma is_positive_minus_iff:
  "a \<noteq> NaN \<Longrightarrow> b \<noteq> NaN \<Longrightarrow> is_positive (js_minus a b) \<longleftrightarrow> \<not> js_le a b"
  by (cases a; cases b) auto

lemma js_le_trans: "js_le a b \<Longrightarrow> js_le b c \<Longrightarrow> js_le a c"
  by (cases a; cases b; cases c) auto

lemma js_le_total: "a \<noteq> NaN \<Longrightarrow> b \<noteq> NaN \<Longrightarrow> js_le a b \<or> js_le b a"
  by (cases a; cases b) auto

lemma not_positive_minus_self: "\<not> is_positive (js_minus a a)"
  by (cases a) auto

lemma js_le_not_positive: "js_le a b \<Longrightarrow> \<not> is_positive (js_minus a b)"
  by (cases a; cases b) auto

lemma set_sort_insert: "set (sort_insert c x ys) = insert x (set ys)"
  by (induction ys) auto

lemma sorted_sort_insert:
  assumes "\<forall>z \<in> set (x # ys). k z \<noteq> NaN"
    and "sorted_wrt (\<lambda>a b. js_le (k a) (k b)) ys"
  shows "sorted_wrt (\<lambda>a b. js_le (k a) (k b)) (sort_insert (\<lambda>a b. js_minus (k a) (k b)) x ys)"
  using assms
proof (induction ys)
  case Nil
  then show ?case by simp
next
  case (Cons y ys)
  show ?case
  proof (cases "is_positive (js_minus (k x) (k y))")
    case True
    with Cons.prems have yx: "js_le (k y) (k x)"
      using is_positive_minus_iff [of "k x" "k y"] js_le_total [of "k x" "k y"] by auto
    have "sorted_wrt (\<lambda>a b. js_le (k a) (k b)) (sort_insert (\<lambda>a b. js_minus (k a) (k b)) x ys)"
      using Cons by simp
    with True yx Cons.prems show ?thesis
      by (auto simp: set_sort_insert)
  next
    case False
    with Cons.prems have xy: "js_le (k x) (k y)"
      using is_positive_minus_iff [of "k x" "k y"] by auto
    with False Cons.prems show ?thesis
      by (auto intro: js_le_trans)
  qed
qed

lemma sorted_array_sort:
  "\<forall>z \<in> set xs. k z \<noteq> NaN \<Longrightarrow>
   sorted_wrt (\<lambda>a b. js_le (k a) (k b)) (array_sort (\<lambda>a b. js_minus (k a) (k b)) xs)"
proof (induction xs)
  case Nil
  then show ?case by simp
next
  case (Cons x xs)
  then show ?case
    by (simp add: sorted_sort_insert set_array_sort)
qed

lemma filter_sort_insert:
  assumes "\<And>a b. P a \<Longrightarrow> P b \<Longrightarrow> \<not> is_positive (c a b)"
  shows "filter P (sort_insert c x ys) = (if P x then x # filter P ys else filter P ys)"
  using assms by (induction ys) auto

lemma filter_array_sort:
  assumes "\<And>a b. P a \<Longrightarrow> P b \<Longrightarrow> \<not> is_positive (c a b)"
  shows "filter P (array_sort c xs) = filter P xs"
  using assms by (induction xs) (simp_all add: filter_sort_insert)

lemma array_sort_sorted:
  "sorted_wrt (\<lambda>a b. \<not> is_positive (c a b)) xs \<Longrightarrow> array_sort c xs = xs"
proof (induction xs)
  case Nil
  then show ?case by simp
next
  case (Cons x xs)
  then have "array_sort c xs = xs" by simp
  moreover have "sort_insert c x xs = x # xs"
    using Cons.prems by (cases xs) auto
  ultimately show ?case by simp
qed

lemma by_time_eq:
  "by_time tns = (\<lambda>a b. js_minus (ToNumber tns (time a)) (ToNumber tns (time b)))"
  by (intro ext) (simp add: by_time_def)

lemma time_format_item: "time (format_item pfs it) = time it"
  by (simp add: format_item_def)

lemma flag_format_item: "is_regular_hours (format_item pfs it) = is_regular_hours it"
  by (simp add: format_item_def)

lemma kept_number_time:
  "is_number (time it) \<Longrightarrow> has_all_fields it \<Longrightarrow> ToNumber tns (time it) \<noteq> NaN"
  by (cases "time it") (auto simp: has_all_fields_iff)

lemma sorted_allFormattedData:
  assumes "\<forall>it \<in> set data. is_number (time it)"
  shows "sorted_wrt (\<lambda>a b. js_le (ToNumber tns (time a)) (ToNumber tns (time b)))
           (allFormattedData pfs tns data)"
proof -
  have "\<forall>z \<in> set (map (format_item pfs) (filter has_all_fields data)).
          ToNumber tns (time z) \<noteq> NaN"
    using assms by (auto simp: time_format_item kept_number_time)
  then show ?thesis
    unfolding allFormattedData_def by_time_eq by (rule sorted_array_sort)
qed

text \<open>
  The next fact is used for numeric times, where the comparator is consistent. For other
  times it is a fact of the insertion order fixed in \<open>array_sort\<close>, which an engine need
  not share.
\<close>

lemma stable_allFormattedData:
  "filter (\<lambda>b. time b = t) (allFormattedData pfs tns data) =
   filter (\<lambda>b. time b = t) (map (format_item pfs) (filter has_all_fields data))"
  unfolding allFormattedData_def
  by (rule filter_array_sort) (simp add: by_time_def not_positive_minus_self)

lemma times_allFormattedData:
  "mset (map time (allFormattedData pfs tns data)) = mset (map time (filter has_all_fields data))"
proof -
  have "mset (map time (allFormattedData pfs tns data)) =
        image_mset time (mset (map (format_item pfs) (filter has_all_fields data)))"
    by (simp add: allFormattedData_def mset_array_sort)
  also have "\<dots> = mset (map time (filter has_all_fields data))"
    by (simp add: image_mset.compositionality comp_def time_format_item)
  finally show ?thesis .
qed

lemma format_item_bar:
  assumes "is_bar it" and "has_all_fields it"
  shows "format_item pfs it = it"
    and "has_all_fields (format_item pfs it)"
    and "is_bar (format_item pfs it)"
proof -
  from assms(1) obtain a b c d where
    "open it = JNumber a" "high it = JNumber b" "low it = JNumber c" "close it = JNumber d"
    unfolding is_bar_def
    by (cases "open it"; cases "high it"; cases "low it"; cases "close it") auto
  then show "format_item pfs it = it" by (simp add: format_item_def)
  with assms show "has_all_fields (format_item pfs it)" "is_bar (format_item pfs it)" by simp_all
qed

subsection \<open>Conservation\<close>

lemma mset_split:
  "mset (regularHoursData xs) + mset (afterHoursData xs) = mset xs"
  unfolding regularHoursData_def afterHoursData_def
  by (induction xs) auto

lemma mset_rendered:
  "mset (fst (rendered pfs tns data)) + mset (snd (rendered pfs tns data)) =
     mset (allFormattedData pfs tns data)"
  by (simp add: rendered_def mset_split allFormattedData_def)

text \<open>
  C1. The two series together hold exactly the formatted images of the input bars whose
  open, high, low, close and time are all truthy, each as often as it came in: none is
  duplicated and none is dropped. Their number is the number of those bars, and it is the
  number of input bars when every bar passes the filter.
\<close>

theorem rendered_count:
  "length (fst (rendered pfs tns data)) + length (snd (rendered pfs tns data)) =
     length (filter has_all_fields data)
   \<and> mset (fst (rendered pfs tns data)) + mset (snd (rendered pfs tns data)) =
     image_mset (format_item pfs) (filter_mset has_all_fields (mset data))
   \<and> mset (allFormattedData pfs tns data) =
     image_mset (format_item pfs) (filter_mset has_all_fields (mset data))
   \<and> ((\<forall>it \<in> set data. has_all_fields it) \<longrightarrow>
        length (fst (rendered pfs tns data)) + length (snd (rendered pfs tns data)) = length data)"
proof -
  have n: "length (fst (rendered pfs tns data)) + length (snd (rendered pfs tns data)) =
      length (filter has_all_fields data)"
    by (simp add: rendered_def length_split length_allFormattedData)
  have m: "mset (allFormattedData pfs tns data) =
      image_mset (format_item pfs) (filter_mset has_all_fields (mset data))"
    by (simp add: allFormattedData_def mset_array_sort)
  have r: "mset (fst (rendered pfs tns data)) + mset (snd (rendered pfs tns data)) =
      image_mset (format_item pfs) (filter_mset has_all_fields (mset data))"
    using m by (simp only: mset_rendered)
  have "length (filter has_all_fields data) = length data" if "\<forall>it \<in> set data. has_all_fields it"
    using that by (simp add: filter_id_conv)
  with n m r show ?thesis by simp
qed

theorem rendered_count_witness:
  "rendered (\<lambda>s. NaN) (\<lambda>s. NaN)
      [numeric_bar 1700000060 100.5 101 99 100 True,
       numeric_bar 1700000000 100 100.6 100 100.5 False] =
     ([numeric_bar 1700000060 100.5 101 99 100 True],
      [numeric_bar 1700000000 100 100.6 100 100.5 False])
   \<and> length (fst (rendered (\<lambda>s. NaN) (\<lambda>s. NaN)
      [numeric_bar 1700000060 100.5 101 99 100 True,
       numeric_bar 1700000000 100 100.6 100 100.5 False]))
   + length (snd (rendered (\<lambda>s. NaN) (\<lambda>s. NaN)
      [numeric_bar 1700000060 100.5 101 99 100 True,
       numeric_bar 1700000000 100 100.6 100 100.5 False]))
   = 2"
  using rendered_count [of "\<lambda>s. NaN" "\<lambda>s. NaN"
      "[numeric_bar 1700000060 100.5 101 99 100 True,
        numeric_bar 1700000000 100 100.6 100 100.5 False]"]
  by (simp add: rendered_def allFormattedData_def has_all_fields_def js_and_def format_item_def
      by_time_def regularHoursData_def afterHoursData_def)

text \<open>
  Of three bars, the one with an open price of zero and the one with a time of zero are
  dropped by the filter: one bar is rendered.
\<close>

theorem conservation_counterexample:
  "rendered (\<lambda>s. NaN) (\<lambda>s. NaN)
      [numeric_bar 1700000000 100 101 99 100.5 True,
       numeric_bar 1700000060 0 1 0 1 True,
       numeric_bar 0 100 101 99 100.5 False] =
     ([numeric_bar 1700000000 100 101 99 100.5 True], [])
   \<and> length (fst (rendered (\<lambda>s. NaN) (\<lambda>s. NaN)
      [numeric_bar 1700000000 100 101 99 100.5 True,
       numeric_bar 1700000060 0 1 0 1 True,
       numeric_bar 0 100 101 99 100.5 False]))
   + length (snd (rendered (\<lambda>s. NaN) (\<lambda>s. NaN)
      [numeric_bar 1700000000 100 101 99 100.5 True,
       numeric_bar 1700000060 0 1 0 1 True,
       numeric_bar 0 100 101 99 100.5 False]))
   = 1
   \<and> length
      [numeric_bar 1700000000 100 101 99 100.5 True,
       numeric_bar 1700000060 0 1 0 1 True,
       numeric_bar 0 100 101 99 100.5 False]
   = 3"
  by (simp add: rendered_def allFormattedData_def has_all_fields_def js_and_def format_item_def
      by_time_def regularHoursData_def afterHoursData_def)

subsection \<open>The two series\<close>

text \<open>
  C2. The split of a formatted list reads only the truthiness of \<open>is_regular_hours\<close>:
  the two series together hold the bars of the list, each as often as the list does;
  no bar is in both; every bar of the list is in exactly one of them, the regular
  series when its flag is truthy and the after-hours series otherwise.
\<close>

theorem series_partition:
  "mset (regularHoursData bars) + mset (afterHoursData bars) = mset bars
   \<and> set (regularHoursData bars) \<inter> set (afterHoursData bars) = {}
   \<and> (\<forall>b \<in> set bars.
        (b \<in> set (regularHoursData bars) \<longleftrightarrow> ToBoolean (is_regular_hours b)) \<and>
        (b \<in> set (afterHoursData bars) \<longleftrightarrow> \<not> ToBoolean (is_regular_hours b)) \<and>
        (b \<in> set (regularHoursData bars)) \<noteq> (b \<in> set (afterHoursData bars)))"
  unfolding regularHoursData_def afterHoursData_def
  by (auto simp: mset_filter)

theorem series_partition_witness:
  "regularHoursData
     (allFormattedData (\<lambda>s. NaN) (\<lambda>s. NaN)
        [numeric_bar 1700000060 100.5 101 99 100 False,
         numeric_bar 1700000000 100 100.6 100 100.5 True]) =
     [numeric_bar 1700000000 100 100.6 100 100.5 True]
   \<and> afterHoursData
     (allFormattedData (\<lambda>s. NaN) (\<lambda>s. NaN)
        [numeric_bar 1700000060 100.5 101 99 100 False,
         numeric_bar 1700000000 100 100.6 100 100.5 True]) =
     [numeric_bar 1700000060 100.5 101 99 100 False]
   \<and> mset (regularHoursData
     (allFormattedData (\<lambda>s. NaN) (\<lambda>s. NaN)
        [numeric_bar 1700000060 100.5 101 99 100 False,
         numeric_bar 1700000000 100 100.6 100 100.5 True]))
     + mset (afterHoursData
     (allFormattedData (\<lambda>s. NaN) (\<lambda>s. NaN)
        [numeric_bar 1700000060 100.5 101 99 100 False,
         numeric_bar 1700000000 100 100.6 100 100.5 True])) =
     mset (allFormattedData (\<lambda>s. NaN) (\<lambda>s. NaN)
        [numeric_bar 1700000060 100.5 101 99 100 False,
         numeric_bar 1700000000 100 100.6 100 100.5 True])"
  using series_partition [of "allFormattedData (\<lambda>s. NaN) (\<lambda>s. NaN)
        [numeric_bar 1700000060 100.5 101 99 100 False,
         numeric_bar 1700000000 100 100.6 100 100.5 True]"]
  by (simp add: allFormattedData_def has_all_fields_def js_and_def format_item_def
      by_time_def regularHoursData_def afterHoursData_def)

subsection \<open>Order\<close>

text \<open>
  C3. For bars with a numeric time, the formatted list is sorted by time, non-decreasing;
  the bars of any one time stand in their input order; formatting leaves every time as
  it was, and the times of the output are those of the bars that pass the filter.
\<close>

theorem sorted_stable:
  assumes "\<forall>it \<in> set data. is_number (time it)"
  shows "sorted_wrt (\<lambda>a b. js_le (ToNumber tns (time a)) (ToNumber tns (time b)))
           (allFormattedData pfs tns data)
   \<and> filter (\<lambda>b. time b = t) (allFormattedData pfs tns data) =
       filter (\<lambda>b. time b = t) (map (format_item pfs) (filter has_all_fields data))
   \<and> map time (map (format_item pfs) (filter has_all_fields data)) =
       map time (filter has_all_fields data)
   \<and> mset (map time (allFormattedData pfs tns data)) =
       mset (map time (filter has_all_fields data))"
  using sorted_allFormattedData [OF assms, of tns pfs]
    stable_allFormattedData [of t pfs tns data] times_allFormattedData [of pfs tns data]
  by (simp add: time_format_item)

theorem sorted_stable_witness:
  "allFormattedData (\<lambda>s. NaN) (\<lambda>s. NaN)
     [numeric_bar 1700000060 1 1 1 1 True,
      numeric_bar 1700000000 2 2 2 2 True,
      numeric_bar 1700000060 3 3 3 3 False,
      numeric_bar 1700000000 4 4 4 4 False] =
     [numeric_bar 1700000000 2 2 2 2 True,
      numeric_bar 1700000000 4 4 4 4 False,
      numeric_bar 1700000060 1 1 1 1 True,
      numeric_bar 1700000060 3 3 3 3 False]
   \<and> sorted_wrt (\<lambda>a b. js_le (ToNumber (\<lambda>s. NaN) (time a)) (ToNumber (\<lambda>s. NaN) (time b)))
     (allFormattedData (\<lambda>s. NaN) (\<lambda>s. NaN)
     [numeric_bar 1700000060 1 1 1 1 True,
      numeric_bar 1700000000 2 2 2 2 True,
      numeric_bar 1700000060 3 3 3 3 False,
      numeric_bar 1700000000 4 4 4 4 False])"
proof -
  have h: "\<forall>it \<in> set [numeric_bar 1700000060 1 1 1 1 True,
      numeric_bar 1700000000 2 2 2 2 True,
      numeric_bar 1700000060 3 3 3 3 False,
      numeric_bar 1700000000 4 4 4 4 False]. is_number (time it)"
    by simp
  have "allFormattedData (\<lambda>s. NaN) (\<lambda>s. NaN)
     [numeric_bar 1700000060 1 1 1 1 True,
      numeric_bar 1700000000 2 2 2 2 True,
      numeric_bar 1700000060 3 3 3 3 False,
      numeric_bar 1700000000 4 4 4 4 False] =
     [numeric_bar 1700000000 2 2 2 2 True,
      numeric_bar 1700000000 4 4 4 4 False,
      numeric_bar 1700000060 1 1 1 1 True,
      numeric_bar 1700000060 3 3 3 3 False]"
    by (simp add: allFormattedData_def has_all_fields_def js_and_def format_item_def by_time_def)
  with sorted_stable [OF h, of "\<lambda>s. NaN" "\<lambda>s. NaN"] show ?thesis
    by blast
qed

subsection \<open>Idempotence\<close>

lemma formatted_prices:
  "is_number (open (format_item pfs it)) \<and> is_number (high (format_item pfs it)) \<and>
   is_number (low (format_item pfs it)) \<and> is_number (close (format_item pfs it))"
  by (simp add: format_item_def)

lemma allFormattedData_fixed_iff:
  assumes bars: "\<forall>b \<in> set s. is_bar b"
    and sorted: "sorted_wrt (\<lambda>a b. js_le (ToNumber tns (time a)) (ToNumber tns (time b))) s"
  shows "allFormattedData pfs tns s = s \<longleftrightarrow> (\<forall>b \<in> set s. has_all_fields b)"
proof
  assume fixed: "allFormattedData pfs tns s = s"
  show "\<forall>b \<in> set s. has_all_fields b"
  proof (rule ccontr)
    assume "\<not> (\<forall>b \<in> set s. has_all_fields b)"
    then obtain b where "b \<in> set s" "\<not> has_all_fields b" by blast
    then have "length (filter has_all_fields s) < length s"
      by (rule length_filter_less)
    moreover have "length (filter has_all_fields s) = length s"
      using length_allFormattedData [of pfs tns s] fixed by simp
    ultimately show False by simp
  qed
next
  assume kept: "\<forall>b \<in> set s. has_all_fields b"
  have "sorted_wrt (\<lambda>a b. \<not> is_positive (by_time tns a b)) s"
    using sorted by (rule sorted_wrt_mono_rel [rotated]) (simp add: by_time_def js_le_not_positive)
  then have "array_sort (by_time tns) s = s"
    by (rule array_sort_sorted)
  moreover have "filter has_all_fields s = s"
    using kept by (simp add: filter_id_conv)
  moreover have "map (format_item pfs) s = s"
    using bars kept by (simp add: map_idI format_item_bar)
  ultimately show "allFormattedData pfs tns s = s"
    by (simp add: allFormattedData_def)
qed

lemma is_bar_allFormattedData:
  assumes "\<forall>it \<in> set data. is_number (time it)" and "b \<in> set (allFormattedData pfs tns data)"
  shows "is_bar b"
proof -
  from assms(2) obtain x where "x \<in> set data" "b = format_item pfs x"
    by (auto simp: allFormattedData_def set_array_sort)
  with assms(1) show ?thesis
    by (simp add: is_bar_def formatted_prices time_format_item)
qed

text \<open>
  C6. A sequence that is sorted by a numeric time and has numeric prices is returned as
  it is by the formatting exactly when every bar of it has a truthy open, high, low,
  close and time: a number passes the filter unless it is 0 or NaN, \<open>parseFloat\<close> of a
  number is that number, and sorting a sorted list moves nothing. So the output of a
  first pass over bars with numeric times is a fixed point exactly when none of its
  bars has a price of 0 or NaN, which is the case when the prices were numbers from the
  start.
\<close>

theorem stacker_idempotent:
  "((\<forall>b \<in> set s. is_bar b) \<and>
    sorted_wrt (\<lambda>a b. js_le (ToNumber tns (time a)) (ToNumber tns (time b))) s \<longrightarrow>
      (allFormattedData pfs tns s = s \<longleftrightarrow> (\<forall>b \<in> set s. has_all_fields b)))
   \<and> ((\<forall>it \<in> set data. is_number (time it)) \<longrightarrow>
      (allFormattedData pfs tns (allFormattedData pfs tns data) = allFormattedData pfs tns data
        \<longleftrightarrow> (\<forall>b \<in> set (allFormattedData pfs tns data). has_all_fields b)))
   \<and> ((\<forall>it \<in> set data. is_bar it) \<longrightarrow>
      allFormattedData pfs tns (allFormattedData pfs tns data) = allFormattedData pfs tns data)"
proof -
  have first: "allFormattedData pfs tns (allFormattedData pfs tns d) = allFormattedData pfs tns d
      \<longleftrightarrow> (\<forall>b \<in> set (allFormattedData pfs tns d). has_all_fields b)"
    if num: "\<forall>it \<in> set d. is_number (time it)" for d
  proof (rule allFormattedData_fixed_iff)
    show "\<forall>b \<in> set (allFormattedData pfs tns d). is_bar b"
      using num by (blast intro: is_bar_allFormattedData)
    show "sorted_wrt (\<lambda>a b. js_le (ToNumber tns (time a)) (ToNumber tns (time b)))
        (allFormattedData pfs tns d)"
      using num by (rule sorted_allFormattedData)
  qed
  have numeric: "allFormattedData pfs tns (allFormattedData pfs tns data) = allFormattedData pfs tns data"
    if bars: "\<forall>it \<in> set data. is_bar it"
  proof -
    have "has_all_fields b" if "b \<in> set (allFormattedData pfs tns data)" for b
    proof -
      from that obtain x where "x \<in> set data" "has_all_fields x" "b = format_item pfs x"
        by (auto simp: allFormattedData_def set_array_sort)
      with bars show ?thesis by (simp add: format_item_bar)
    qed
    moreover have "\<forall>it \<in> set data. is_number (time it)"
      using bars by (simp add: is_bar_def)
    ultimately show ?thesis using first [of data] by blast
  qed
  from allFormattedData_fixed_iff [of s tns pfs] first [of data] numeric show ?thesis
    by blast
qed

theorem stacker_idempotent_witness:
  "allFormattedData (\<lambda>s. NaN) (\<lambda>s. NaN)
     [numeric_bar 1700000000 4 4 4 4 False,
      numeric_bar 1700000060 1 1 1 1 True] =
     [numeric_bar 1700000000 4 4 4 4 False,
      numeric_bar 1700000060 1 1 1 1 True]
   \<and> allFormattedData (\<lambda>s. NaN) (\<lambda>s. NaN)
     (allFormattedData (\<lambda>s. NaN) (\<lambda>s. NaN)
        [numeric_bar 1700000060 1 1 1 1 True,
         numeric_bar 1700000000 0 2 2 2 True,
         numeric_bar 1700000000 4 4 4 4 False]) =
   allFormattedData (\<lambda>s. NaN) (\<lambda>s. NaN)
        [numeric_bar 1700000060 1 1 1 1 True,
         numeric_bar 1700000000 0 2 2 2 True,
         numeric_bar 1700000000 4 4 4 4 False]"
  using stacker_idempotent [of
      "[numeric_bar 1700000000 4 4 4 4 False, numeric_bar 1700000060 1 1 1 1 True]"
      "\<lambda>s. NaN" "\<lambda>s. NaN"
      "[numeric_bar 1700000060 1 1 1 1 True,
        numeric_bar 1700000000 0 2 2 2 True,
        numeric_bar 1700000000 4 4 4 4 False]"]
  by (simp add: is_bar_def has_all_fields_iff)

text \<open>
  The filter tests a price before it is coerced. A first pass keeps a bar whose open is
  the string \<^verbatim>\<open>abc\<close> and gives it the open NaN; the output is sorted and numeric, and a
  second pass drops that bar.
\<close>

theorem idempotence_counterexample:
  "allFormattedData (\<lambda>s. if s = ''7'' then Fin 7 else NaN) (\<lambda>s. NaN)
     [\<lparr> time = JNumber (Fin 1700000060), open = JString ''abc'', high = JNumber (Fin 101),
        low = JNumber (Fin 99), close = JNumber (Fin 100), is_regular_hours = JBool True \<rparr>,
      \<lparr> time = JNumber (Fin 1700000000), open = JString ''7'', high = JNumber (Fin 8),
        low = JNumber (Fin 6), close = JNumber (Fin 7), is_regular_hours = JBool True \<rparr>] =
     [\<lparr> time = JNumber (Fin 1700000000), open = JNumber (Fin 7), high = JNumber (Fin 8),
        low = JNumber (Fin 6), close = JNumber (Fin 7), is_regular_hours = JBool True \<rparr>,
      \<lparr> time = JNumber (Fin 1700000060), open = JNumber NaN, high = JNumber (Fin 101),
        low = JNumber (Fin 99), close = JNumber (Fin 100), is_regular_hours = JBool True \<rparr>]
   \<and> allFormattedData (\<lambda>s. if s = ''7'' then Fin 7 else NaN) (\<lambda>s. NaN)
     [\<lparr> time = JNumber (Fin 1700000000), open = JNumber (Fin 7), high = JNumber (Fin 8),
        low = JNumber (Fin 6), close = JNumber (Fin 7), is_regular_hours = JBool True \<rparr>,
      \<lparr> time = JNumber (Fin 1700000060), open = JNumber NaN, high = JNumber (Fin 101),
        low = JNumber (Fin 99), close = JNumber (Fin 100), is_regular_hours = JBool True \<rparr>] =
     [\<lparr> time = JNumber (Fin 1700000000), open = JNumber (Fin 7), high = JNumber (Fin 8),
        low = JNumber (Fin 6), close = JNumber (Fin 7), is_regular_hours = JBool True \<rparr>]
   \<and> allFormattedData (\<lambda>s. if s = ''7'' then Fin 7 else NaN) (\<lambda>s. NaN)
     (allFormattedData (\<lambda>s. if s = ''7'' then Fin 7 else NaN) (\<lambda>s. NaN)
       [\<lparr> time = JNumber (Fin 1700000060), open = JString ''abc'', high = JNumber (Fin 101),
          low = JNumber (Fin 99), close = JNumber (Fin 100), is_regular_hours = JBool True \<rparr>,
        \<lparr> time = JNumber (Fin 1700000000), open = JString ''7'', high = JNumber (Fin 8),
          low = JNumber (Fin 6), close = JNumber (Fin 7), is_regular_hours = JBool True \<rparr>]) \<noteq>
     allFormattedData (\<lambda>s. if s = ''7'' then Fin 7 else NaN) (\<lambda>s. NaN)
       [\<lparr> time = JNumber (Fin 1700000060), open = JString ''abc'', high = JNumber (Fin 101),
          low = JNumber (Fin 99), close = JNumber (Fin 100), is_regular_hours = JBool True \<rparr>,
        \<lparr> time = JNumber (Fin 1700000000), open = JString ''7'', high = JNumber (Fin 8),
          low = JNumber (Fin 6), close = JNumber (Fin 7), is_regular_hours = JBool True \<rparr>]"
  by (simp add: allFormattedData_def has_all_fields_def js_and_def format_item_def by_time_def)

section \<open>Properties of the upload component\<close>

lemma Home_after_times:
  "Home.prevCloseTime (Home_after h es) = Home.prevCloseTime h \<and>
   Home.currentOpenTime (Home_after h es) = Home.currentOpenTime h"
  by (induction h es rule: Home_after.induct) (simp_all add: handleFileUploaded_def)

lemma Home_after_no_callback:
  "\<forall>data g. OnFileUploaded data g \<notin> set es \<Longrightarrow> Home_after h es = h"
  by (induction h es rule: Home_after.induct) auto

lemma fetch_effects:
  "Fetch req \<in> set (snd (handleFileUpload props fetch st f)) \<Longrightarrow> req = upload_request props f"
  by (auto simp: handleFileUpload_def try_upload_def Let_def
      split: if_splits fetched.splits sum.splits option.splits)

lemma body_upload_request:
  "p \<noteq> [] \<Longrightarrow> c \<noteq> [] \<Longrightarrow> prevCloseTime props = Some p \<Longrightarrow> currentOpenTime props = Some c \<Longrightarrow>
   body (upload_request props f) =
     [(''file'', FormFile f), (''prev_close_time'', FormText p), (''current_open_time'', FormText c)]"
  by (simp add: upload_request_def append_if_given_def)

subsection \<open>Session configuration\<close>

text \<open>
  C5. The page starts with \<open>prevCloseTime = 16:00\<close> and \<open>currentOpenTime = 07:00\<close>, both
  of the form HH:MM, and no handler of the page changes them. Every request the upload
  handler sends for the page carries them as the fields \<open>prev_close_time\<close> and
  \<open>current_open_time\<close>, after the file; whatever non-empty values the page holds are
  sent under these two names.
\<close>

theorem session_config_defaults:
  "Home.prevCloseTime (Home_after Home_initial es) = ''16:00''
   \<and> Home.currentOpenTime (Home_after Home_initial es) = ''07:00''
   \<and> is_HHMM ''16:00'' \<and> is_HHMM ''07:00''
   \<and> (\<forall>req. Fetch req \<in> set (snd (handleFileUpload (Home_props (Home_after Home_initial es)) fetch st f)) \<longrightarrow>
         body req =
           [(''file'', FormFile f), (''prev_close_time'', FormText ''16:00''),
            (''current_open_time'', FormText ''07:00'')])
   \<and> (Home.prevCloseTime h \<noteq> [] \<and> Home.currentOpenTime h \<noteq> [] \<longrightarrow>
        (\<forall>req. Fetch req \<in> set (snd (handleFileUpload (Home_props h) fetch st f)) \<longrightarrow>
           body req =
             [(''file'', FormFile f), (''prev_close_time'', FormText (Home.prevCloseTime h)),
              (''current_open_time'', FormText (Home.currentOpenTime h))]))"
proof -
  have t: "Home.prevCloseTime (Home_after Home_initial es) = ''16:00''"
    "Home.currentOpenTime (Home_after Home_initial es) = ''07:00''"
    by (simp_all add: Home_after_times Home_initial_def)
  have f: "is_HHMM ''16:00''" "is_HHMM ''07:00''"
    by (simp_all add: is_HHMM_def digit_value_def)
  have b: "body (upload_request (Home_props k) f) =
      [(''file'', FormFile f), (''prev_close_time'', FormText (Home.prevCloseTime k)),
       (''current_open_time'', FormText (Home.currentOpenTime k))]"
    if "Home.prevCloseTime k \<noteq> []" "Home.currentOpenTime k \<noteq> []" for k :: "'a Home"
    using that by (simp add: body_upload_request Home_props_def)
  have "body req =
      [(''file'', FormFile f), (''prev_close_time'', FormText (Home.prevCloseTime k)),
       (''current_open_time'', FormText (Home.currentOpenTime k))]"
    if "Home.prevCloseTime k \<noteq> []" "Home.currentOpenTime k \<noteq> []"
      "Fetch req \<in> set (snd (handleFileUpload (Home_props k) fetch st f))" for k :: "'a Home" and req
    using that b fetch_effects by metis
  from this [of "Home_after Home_initial es"] this [of h] t f show ?thesis
    by simp
qed

theorem session_config_defaults_witness:
  "snd (handleFileUpload (Home_props (Home_initial :: unit Home)) (\<lambda>req. Rejected NonError)
      \<lparr> isDragOver = False, isUploading = False, uploadStatus = '''', fileInputRef = Some ''bars.csv'' \<rparr>
      \<lparr> name = ''bars.csv'', contents = ''time,open,high,low,close'' \<rparr>) =
     [Fetch \<lparr> url = ''https://ruth-tester-backend.onrender.com/upload-csv'', method = ''POST'',
        body = [(''file'', FormFile \<lparr> name = ''bars.csv'', contents = ''time,open,high,low,close'' \<rparr>),
                (''prev_close_time'', FormText ''16:00''),
                (''current_open_time'', FormText ''07:00'')] \<rparr>,
      ConsoleError NonError]"
  using session_config_defaults [of "[]" "\<lambda>req. Rejected NonError"
      "\<lparr> isDragOver = False, isUploading = False, uploadStatus = '''', fileInputRef = Some ''bars.csv'' \<rparr>"
      "\<lparr> name = ''bars.csv'', contents = ''time,open,high,low,close'' \<rparr>" "Home_initial :: unit Home"]
  by (simp add: handleFileUpload_def try_upload_def upload_request_def append_if_given_def
      Home_props_def Home_initial_def endsWith_def toLowerCase_def lower_char_def)

subsection \<open>The CSV gate\<close>

text \<open>
  C9. For a file whose lower-cased name does not end with \<open>.csv\<close>, the handler sets the
  status to \<open>Please select a CSV file\<close> and does nothing else: no request, no callback,
  no other change of the state.
\<close>

theorem csv_gate:
  "\<not> endsWith (toLowerCase (name f)) ''.csv'' \<Longrightarrow>
   handleFileUpload props fetch st f = (st\<lparr> uploadStatus := ''Please select a CSV file'' \<rparr>, [])"
  by (simp add: handleFileUpload_def)

theorem csv_gate_witness:
  "handleFileUpload (Home_props (Home_initial :: unit Home))
      (\<lambda>req. Resolved \<lparr> ok = True, statusText = ''OK'', json = Inr () \<rparr>)
      \<lparr> isDragOver = False, isUploading = False, uploadStatus = '''', fileInputRef = Some ''notes.txt'' \<rparr>
      \<lparr> name = ''notes.txt'', contents = ''hello'' \<rparr> =
     (\<lparr> isDragOver = False, isUploading = False, uploadStatus = ''Please select a CSV file'',
        fileInputRef = Some ''notes.txt'' \<rparr>, [])"
  using csv_gate [of "\<lparr> name = ''notes.txt'', contents = ''hello'' \<rparr>"
      "Home_props (Home_initial :: unit Home)"
      "\<lambda>req. Resolved \<lparr> ok = True, statusText = ''OK'', json = Inr () \<rparr>"
      "\<lparr> isDragOver = False, isUploading = False, uploadStatus = '''', fileInputRef = Some ''notes.txt'' \<rparr>"]
  by (simp add: endsWith_def toLowerCase_def lower_char_def)

subsection \<open>Failed uploads\<close>

text \<open>
  C10. For a file that passes the gate: when the request is rejected or its response is
  not ok, the callback is not called (the page stays as it was), the file input keeps
  its value, and the status starts with \<open>Upload failed\<close>. Whatever the outcome, the
  handler ends with \<open>isUploading\<close> false.
\<close>

theorem upload_failure:
  assumes "endsWith (toLowerCase (name f)) ''.csv''"
  shows "(request_failed (fetch (upload_request props f)) \<longrightarrow>
            (\<forall>data g. OnFileUploaded data g \<notin> set (snd (handleFileUpload props fetch st f)))
          \<and> Home_after h (snd (handleFileUpload props fetch st f)) = h
          \<and> fileInputRef (fst (handleFileUpload props fetch st f)) = fileInputRef st
          \<and> isDragOver (fst (handleFileUpload props fetch st f)) = isDragOver st
          \<and> startsWith (uploadStatus (fst (handleFileUpload props fetch st f))) ''Upload failed'')
     \<and> \<not> isUploading (fst (handleFileUpload props fetch st f))"
proof -
  have up: "\<not> isUploading (fst (handleFileUpload props fetch st f))"
    using assms
    by (simp add: handleFileUpload_def try_upload_def Let_def
        split: fetched.splits sum.splits option.splits prod.splits)
  have "(\<forall>data g. OnFileUploaded data g \<notin> set (snd (handleFileUpload props fetch st f)))
      \<and> fileInputRef (fst (handleFileUpload props fetch st f)) = fileInputRef st
      \<and> isDragOver (fst (handleFileUpload props fetch st f)) = isDragOver st
      \<and> startsWith (uploadStatus (fst (handleFileUpload props fetch st f))) ''Upload failed''"
    if "request_failed (fetch (upload_request props f))"
    using that assms
    by (auto simp: handleFileUpload_def try_upload_def Let_def request_failed_def startsWith_def
        split: fetched.splits)
  with up show ?thesis
    by (simp add: Home_after_no_callback)
qed

theorem upload_failure_witness:
  "handleFileUpload (Home_props (Home_initial :: unit Home))
      (\<lambda>req. Resolved \<lparr> ok = False, statusText = ''Bad Gateway'', json = Inr () \<rparr>)
      \<lparr> isDragOver = False, isUploading = False, uploadStatus = '''', fileInputRef = Some ''bars.CSV'' \<rparr>
      \<lparr> name = ''bars.CSV'', contents = ''time,open'' \<rparr> =
     (\<lparr> isDragOver = False, isUploading = False,
        uploadStatus = ''Upload failed: Upload failed: Bad Gateway'',
        fileInputRef = Some ''bars.CSV'' \<rparr>,
      [Fetch (upload_request (Home_props (Home_initial :: unit Home))
          \<lparr> name = ''bars.CSV'', contents = ''time,open'' \<rparr>),
       ConsoleError (Error ''Upload failed: Bad Gateway'')])
   \<and> startsWith ''Upload failed: Upload failed: Bad Gateway'' ''Upload failed''"
proof -
  have csv: "endsWith (toLowerCase (name \<lparr> name = ''bars.CSV'', contents = ''time,open'' \<rparr>)) ''.csv''"
    by (simp add: endsWith_def toLowerCase_def lower_char_def)
  have run: "handleFileUpload (Home_props (Home_initial :: unit Home))
      (\<lambda>req. Resolved \<lparr> ok = False, statusText = ''Bad Gateway'', json = Inr () \<rparr>)
      \<lparr> isDragOver = False, isUploading = False, uploadStatus = '''', fileInputRef = Some ''bars.CSV'' \<rparr>
      \<lparr> name = ''bars.CSV'', contents = ''time,open'' \<rparr> =
     (\<lparr> isDragOver = False, isUploading = False,
        uploadStatus = ''Upload failed: Upload failed: Bad Gateway'',
        fileInputRef = Some ''bars.CSV'' \<rparr>,
      [Fetch (upload_request (Home_props (Home_initial :: unit Home))
          \<lparr> name = ''bars.CSV'', contents = ''time,open'' \<rparr>),
       ConsoleError (Error ''Upload failed: Bad Gateway'')])"
    using csv by (simp add: handleFileUpload_def try_upload_def)
  have "request_failed ((\<lambda>req. Resolved \<lparr> ok = False, statusText = ''Bad Gateway'', json = Inr () \<rparr>)
      (upload_request (Home_props (Home_initial :: unit Home))
          \<lparr> name = ''bars.CSV'', contents = ''time,open'' \<rparr>))"
    by (simp add: request_failed_def)
  with upload_failure [OF csv, of "\<lambda>req. Resolved \<lparr> ok = False, statusText = ''Bad Gateway'', json = Inr () \<rparr>"
      "Home_props (Home_initial :: unit Home)"
      "\<lparr> isDragOver = False, isUploading = False, uploadStatus = '''', fileInputRef = Some ''bars.CSV'' \<rparr>"]
    run show ?thesis
    by simp
qed

section \<open>Properties of the backend pipeline\<close>

lemma parse_row_fails:
  assumes "parse_timestamp (timestamp_text r) = None \<or> parse_price (open_text r) = None \<or>
      parse_price (high_text r) = None \<or> parse_price (low_text r) = None \<or>
      parse_price (close_text r) = None"
  shows "\<exists>why. parse_row parse_timestamp parse_price r = Inl why"
  using assms
  by (cases "parse_timestamp (timestamp_text r)"; cases "parse_price (open_text r)";
      cases "parse_price (high_text r)"; cases "parse_price (low_text r)";
      cases "parse_price (close_text r)") (simp_all add: parse_row_def)

lemma parse_rows_append:
  "parse_rows p n (xs @ ys) =
     (fst (parse_rows p n xs) @ fst (parse_rows p (n + length xs) ys),
      snd (parse_rows p n xs) @ snd (parse_rows p (n + length xs) ys))"
  by (induction xs arbitrary: n) (auto split: prod.splits sum.splits)

lemma parse_rows_result_lengths:
  "parse_rows p n rows = (bars, errors) \<Longrightarrow> length bars + length errors = length rows"
  by (induction rows arbitrary: n bars errors) (auto split: prod.splits sum.splits)

lemma parse_rows_lengths:
  "length (fst (parse_rows p n rows)) + length (snd (parse_rows p n rows)) = length rows"
  by (rule parse_rows_result_lengths) simp

subsection \<open>Per-row error recovery\<close>

text \<open>
  C7. A data row with a required field that does not parse is skipped and recorded
  once, under its row number; the rows before and after it are parsed as they would be
  without it. The call succeeds, with fewer bars than rows and an error list that holds
  the descriptor.
\<close>

theorem bad_row_recovery:
  assumes "parse_timestamp (timestamp_text bad) = None \<or> parse_price (open_text bad) = None \<or>
      parse_price (high_text bad) = None \<or> parse_price (low_text bad) = None \<or>
      parse_price (close_text bad) = None"
  shows "\<exists>why.
      parse (parse_row parse_timestamp parse_price) first (DataRows (before @ bad # after)) =
        Inr (fst (parse_rows (parse_row parse_timestamp parse_price) first before) @
               fst (parse_rows (parse_row parse_timestamp parse_price) (first + length before + 1) after),
             snd (parse_rows (parse_row parse_timestamp parse_price) first before) @
               \<lparr> row_number = first + length before, reason = why \<rparr> #
               snd (parse_rows (parse_row parse_timestamp parse_price) (first + length before + 1) after))
      \<and> length (fst (parse_rows (parse_row parse_timestamp parse_price) first before) @
               fst (parse_rows (parse_row parse_timestamp parse_price) (first + length before + 1) after))
          < length (before @ bad # after)"
proof -
  let ?p = "parse_row parse_timestamp parse_price"
  from parse_row_fails [of parse_timestamp bad parse_price] assms
  obtain why where bad: "?p bad = Inl why"
    by blast
  have one: "parse_rows ?p n (bad # after) =
      (fst (parse_rows ?p (Suc n) after),
       \<lparr> row_number = n, reason = why \<rparr> # snd (parse_rows ?p (Suc n) after))" for n
    using bad by (simp add: case_prod_beta)
  have all: "parse_rows ?p first (before @ bad # after) =
      (fst (parse_rows ?p first before) @ fst (parse_rows ?p (first + length before + 1) after),
       snd (parse_rows ?p first before) @
         \<lparr> row_number = first + length before, reason = why \<rparr> #
         snd (parse_rows ?p (first + length before + 1) after))"
    unfolding parse_rows_append [of ?p first before "bad # after"] one by simp
  have "length (fst (parse_rows ?p first before)) \<le> length before"
    using parse_rows_lengths [of ?p first before] by simp
  moreover have "length (fst (parse_rows ?p (first + length before + 1) after)) \<le> length after"
    using parse_rows_lengths [of ?p "first + length before + 1" after] by simp
  ultimately have "length (fst (parse_rows ?p first before) @
      fst (parse_rows ?p (first + length before + 1) after)) < length (before @ bad # after)"
    by simp
  with all show ?thesis
    by (intro exI [of _ why]) (simp add: parse_def)
qed

theorem bad_row_recovery_witness:
  "parse (parse_row (\<lambda>s. if s = ''2024-01-02 09:30'' then Some (1704205800 :: int) else None)
                    (\<lambda>s. if s = ''100.5'' then Some (100.5 :: rat) else None))
     1
     (DataRows
       [\<lparr> timestamp_text = ''2024-01-02 09:30'', open_text = ''100.5'', high_text = ''100.5'',
          low_text = ''100.5'', close_text = ''100.5'' \<rparr>,
        \<lparr> timestamp_text = ''not-a-date'', open_text = ''100.5'', high_text = ''100.5'',
          low_text = ''100.5'', close_text = ''100.5'' \<rparr>,
        \<lparr> timestamp_text = ''2024-01-02 09:30'', open_text = ''100.5'', high_text = ''100.5'',
          low_text = ''100.5'', close_text = ''100.5'' \<rparr>]) =
   Inr ([\<lparr> timestamp = 1704205800, open = 100.5, high = 100.5, low = 100.5, close = 100.5 \<rparr>,
         \<lparr> timestamp = 1704205800, open = 100.5, high = 100.5, low = 100.5, close = 100.5 \<rparr>],
        [\<lparr> row_number = 2, reason = BadTimestamp \<rparr>])"
  using bad_row_recovery [of
      "\<lambda>s. if s = ''2024-01-02 09:30'' then Some (1704205800 :: int) else None"
      "\<lparr> timestamp_text = ''not-a-date'', open_text = ''100.5'', high_text = ''100.5'',
         low_text = ''100.5'', close_text = ''100.5'' \<rparr>"
      "\<lambda>s. if s = ''100.5'' then Some (100.5 :: rat) else None"
      1
      "[\<lparr> timestamp_text = ''2024-01-02 09:30'', open_text = ''100.5'', high_text = ''100.5'',
          low_text = ''100.5'', close_text = ''100.5'' \<rparr>]"
      "[\<lparr> timestamp_text = ''2024-01-02 09:30'', open_text = ''100.5'', high_text = ''100.5'',
          low_text = ''100.5'', close_text = ''100.5'' \<rparr>]"]
  by (simp add: parse_def parse_row_def)

subsection \<open>Boundary exactness\<close>

text \<open>
  C4. A bar is regular exactly when its local time of day in the reference zone lies in
  \<open>[regular_open, regular_close)\<close>. At \<open>regular_close\<close> it is after-hours; at
  \<open>regular_open\<close> it is regular (the window being non-empty).
\<close>

theorem boundary_exactness:
  "(bar.is_regular_hours (classify_bar to_instant utc_offset w cfg c) \<longleftrightarrow>
      regular_open w \<le> local_time_of_day utc_offset (to_instant (candidate.timestamp c)) \<and>
      local_time_of_day utc_offset (to_instant (candidate.timestamp c)) < regular_close w)
   \<and> (local_time_of_day utc_offset (to_instant (candidate.timestamp c)) = regular_close w \<longrightarrow>
        \<not> bar.is_regular_hours (classify_bar to_instant utc_offset w cfg c))
   \<and> (local_time_of_day utc_offset (to_instant (candidate.timestamp c)) = regular_open w \<and>
      regular_open w < regular_close w \<longrightarrow>
        bar.is_regular_hours (classify_bar to_instant utc_offset w cfg c))"
  by (simp add: classify_bar_def in_regular_session_def)

theorem boundary_exactness_witness:
  "map bar.is_regular_hours
     (classify (\<lambda>t. t) (\<lambda>i. - 18000) \<lparr> regular_open = 34200, regular_close = 57600 \<rparr>
        \<lparr> prev_close_time = 57600, current_open_time = 25200 \<rparr>
        [\<lparr> timestamp = 1699972200, open = 100 :: rat, high = 101, low = 99, close = 100.5 \<rparr>,
         \<lparr> timestamp = 1699995600, open = 100.5, high = 100.6, low = 100.4, close = 100.5 \<rparr>,
         \<lparr> timestamp = 1699995660, open = 100.5, high = 100.5, low = 100.3, close = 100.4 \<rparr>]) =
     [True, False, False]
   \<and> local_time_of_day (\<lambda>i. - 18000) 1699972200 = 34200
   \<and> local_time_of_day (\<lambda>i. - 18000) 1699995600 = 57600"
  using boundary_exactness [of "\<lambda>t. t" "\<lambda>i. - 18000" "\<lparr> regular_open = 34200, regular_close = 57600 \<rparr>"
      "\<lparr> prev_close_time = 57600, current_open_time = 25200 \<rparr>"
      "\<lparr> timestamp = 1699995600, open = 100.5 :: rat, high = 100.6, low = 100.4, close = 100.5 \<rparr>"]
  by (simp add: classify_def classify_bar_def in_regular_session_def local_time_of_day_def)

subsection \<open>Classification purity\<close>

text \<open>
  C8. The flag of a bar is a function of its timestamp, the reference zone and the
  session configuration: two bars with the same timestamp get the same flag, wherever
  they stand and whatever the other bars of their batches are.
\<close>

theorem classification_purity:
  assumes "i < length bars" and "j < length others"
    and "candidate.timestamp (bars ! i) = candidate.timestamp (others ! j)"
  shows "bar.is_regular_hours (classify to_instant utc_offset w cfg bars ! i) =
         bar.is_regular_hours (classify to_instant utc_offset w cfg others ! j)
   \<and> bar.is_regular_hours (classify to_instant utc_offset w cfg bars ! i) =
       in_regular_session w
         (local_time_of_day utc_offset (to_instant (candidate.timestamp (bars ! i))))"
  using assms by (simp add: classify_def classify_bar_def)

theorem classification_purity_witness:
  "bar.is_regular_hours
     (classify (\<lambda>t. t) (\<lambda>i. - 18000) \<lparr> regular_open = 34200, regular_close = 57600 \<rparr>
        \<lparr> prev_close_time = 57600, current_open_time = 25200 \<rparr>
        [\<lparr> timestamp = 1699972200, open = 100 :: rat, high = 101, low = 99, close = 100.5 \<rparr>,
         \<lparr> timestamp = 1699995600, open = 100.5, high = 100.6, low = 100.4, close = 100.5 \<rparr>] ! 0) =
   bar.is_regular_hours
     (classify (\<lambda>t. t) (\<lambda>i. - 18000) \<lparr> regular_open = 34200, regular_close = 57600 \<rparr>
        \<lparr> prev_close_time = 57600, current_open_time = 25200 \<rparr>
        [\<lparr> timestamp = 1699995660, open = 100.5 :: rat, high = 100.5, low = 100.3, close = 100.4 \<rparr>,
         \<lparr> timestamp = 1699972200, open = 7, high = 8, low = 6, close = 7 \<rparr>] ! 1)
   \<and> bar.is_regular_hours
     (classify (\<lambda>t. t) (\<lambda>i. - 18000) \<lparr> regular_open = 34200, regular_close = 57600 \<rparr>
        \<lparr> prev_close_time = 57600, current_open_time = 25200 \<rparr>
        [\<lparr> timestamp = 1699972200, open = 100 :: rat, high = 101, low = 99, close = 100.5 \<rparr>,
         \<lparr> timestamp = 1699995600, open = 100.5, high = 100.6, low = 100.4, close = 100.5 \<rparr>] ! 0)"
  using classification_purity [of 0
      "[\<lparr> timestamp = 1699972200, open = 100 :: rat, high = 101, low = 99, close = 100.5 \<rparr>,
        \<lparr> timestamp = 1699995600, open = 100.5, high = 100.6, low = 100.4, close = 100.5 \<rparr>]"
      1
      "[\<lparr> timestamp = 1699995660, open = 100.5 :: rat, high = 100.5, low = 100.3, close = 100.4 \<rparr>,
        \<lparr> timestamp = 1699972200, open = 7, high = 8, low = 6, close = 7 \<rparr>]"
      "\<lambda>t. t" "\<lambda>i. - 18000" "\<lparr> regular_open = 34200, regular_close = 57600 \<rparr>"
      "\<lparr> prev_close_time = 57600, current_open_time = 25200 \<rparr>"]
  by (simp add: classify_def classify_bar_def in_regular_session_def local_time_of_day_def)

end
